theory Spec2Isabelle
  imports Complex_Main
begin

section \<open>Numbers, null and strings of the source language\<close>

text \<open>
  The space-allocation estimator is TypeScript. Its counts are the integer columns of
  the table \<open>space_requirements\<close> (and, in the form, the results of
  \<open>parseInt(...) || 0\<close>), so a count is an \<open>int\<close>. An area is a finite number, a
  \<open>real\<close>; \<open>number | null\<close> is \<open>real option\<close>: the floor area is read from a
  numeric column through JSON, which carries neither NaN nor an infinity. Arithmetic on
  finite numbers is exact here: the rounding of binary64 is not part of the model. What
  is part of it is the result of a division, whose divisor can be zero: it is of type
  \<open>number\<close>, which has the two infinities and NaN besides the finite values.
\<close>

datatype number = Finite real | PosInfinity | NegInfinity | NaN

definition js_divide :: "real \<Rightarrow> real \<Rightarrow> number" where
  \<comment> \<open>\<open>x / y\<close> on finite operands; the divisors of the source are never \<open>-0\<close>\<close>
  "js_divide x y =
     (if y = 0 then (if 0 < x then PosInfinity else if x < 0 then NegInfinity else NaN)
      else Finite (x / y))"

fun js_ge :: "number \<Rightarrow> real \<Rightarrow> bool" where
  \<comment> \<open>\<open>x >= t\<close> for a finite \<open>t\<close>: every comparison with NaN is false\<close>
  "js_ge (Finite x) t = (t \<le> x)"
| "js_ge PosInfinity t = True"
| "js_ge NegInfinity t = False"
| "js_ge NaN t = False"

fun js_times :: "number \<Rightarrow> real \<Rightarrow> number" where
  \<comment> \<open>\<open>x * c\<close> for a finite \<open>c\<close>\<close>
  "js_times (Finite x) c = Finite (x * c)"
| "js_times PosInfinity c = (if 0 < c then PosInfinity else if c < 0 then NegInfinity else NaN)"
| "js_times NegInfinity c = (if 0 < c then NegInfinity else if c < 0 then PosInfinity else NaN)"
| "js_times NaN c = NaN"

fun Math_min :: "real \<Rightarrow> number \<Rightarrow> number" where
  \<comment> \<open>\<open>Math.min(c, x)\<close> for a finite \<open>c\<close>: NaN if an argument is NaN\<close>
  "Math_min c (Finite x) = Finite (min c x)"
| "Math_min c PosInfinity = Finite c"
| "Math_min c NegInfinity = NegInfinity"
| "Math_min c NaN = NaN"

definition to_number :: "real option \<Rightarrow> real" where
  \<comment> \<open>the numeric value of \<open>a : number | null\<close> in arithmetic and comparison: null is 0\<close>
  "to_number a = (case a of None \<Rightarrow> 0 | Some x \<Rightarrow> x)"

definition js_not :: "real option \<Rightarrow> bool" where
  \<comment> \<open>\<open>!a\<close> for \<open>a : number | null\<close>: null and zero are the falsy values\<close>
  "js_not a = (case a of None \<Rightarrow> True | Some x \<Rightarrow> x = 0)"

definition js_or :: "real option \<Rightarrow> real \<Rightarrow> real" where
  \<comment> \<open>\<open>a || d\<close>: the right operand when the left one is falsy\<close>
  "js_or a d = (case a of None \<Rightarrow> d | Some x \<Rightarrow> if x = 0 then d else x)"

definition Math_round :: "real \<Rightarrow> int" where
  \<comment> \<open>\<open>Math.round\<close>: the nearest integer, a half going up\<close>
  "Math_round x = \<lfloor>x + 1 / 2\<rfloor>"

definition Math_floor :: "real \<Rightarrow> int" where
  "Math_floor x = \<lfloor>x\<rfloor>"

text \<open>
  A string is its sequence of UTF-16 code units, as \<open>String.prototype.length\<close> and
  indexing see it. \<open>Array.prototype.join\<close> puts the separator between the elements.
\<close>

type_synonym js_string = "nat list"

fun join :: "js_string \<Rightarrow> js_string list \<Rightarrow> js_string" where
  "join sep [] = []"
| "join sep [x] = x"
| "join sep (x # y # ys) = x @ sep @ join sep (y # ys)"

definition push :: "'a list \<Rightarrow> 'a \<Rightarrow> 'a list" where
  \<comment> \<open>\<open>xs.push(x)\<close>, the array returned instead of mutated\<close>
  "push xs x = xs @ [x]"

section \<open>The requirements form (\<open>SpaceRequirements\<close>)\<close>

record Requirements =
  workstations :: int
  meeting_rooms_small :: int
  meeting_rooms_medium :: int
  meeting_rooms_large :: int
  phone_booths :: int
  breakout_areas :: int
  kitchen_pantry :: bool
  reception_area :: bool
  storage_rooms :: int
  server_room :: bool
  additional_notes :: js_string

text \<open>
  \<open>calculateEstimatedArea\<close> reads the component's \<open>requirements\<close> and stores its result
  with \<open>setEstimatedArea\<close>; the model takes the requirements and returns the stored
  value. It is stated on the record scheme, so that it also applies to the
  \<open>SpaceRequirement\<close> of the solutions component, which has the same fields and an id.
\<close>

definition calculateEstimatedArea :: "'a Requirements_scheme \<Rightarrow> int" where
  "calculateEstimatedArea requirements =
     (let workstationArea = workstations requirements * 6;
          smallMeetingArea = meeting_rooms_small requirements * 15;
          mediumMeetingArea = meeting_rooms_medium requirements * 25;
          largeMeetingArea = meeting_rooms_large requirements * 40;
          phoneBoothArea = phone_booths requirements * 2;
          breakoutArea = breakout_areas requirements * 20;
          kitchenArea = (if kitchen_pantry requirements then 15 else 0);
          receptionArea = (if reception_area requirements then 20 else 0);
          storageArea = storage_rooms requirements * 10;
          serverArea = (if server_room requirements then 15 else 0);
          total = workstationArea + smallMeetingArea + mediumMeetingArea +
                  largeMeetingArea + phoneBoothArea + breakoutArea +
                  kitchenArea + receptionArea + storageArea + serverArea;
          withCirculation = of_int total * 1.4
      in Math_round withCirculation)"

definition isAreaSufficient :: "real \<Rightarrow> real option \<Rightarrow> bool" where
  \<comment> \<open>\<open>!floorPlan.floor_area_sqm || estimatedArea <= floorPlan.floor_area_sqm\<close>\<close>
  "isAreaSufficient estimatedArea floor_area_sqm =
     (js_not floor_area_sqm \<or> estimatedArea \<le> to_number floor_area_sqm)"

section \<open>The solutions component (\<open>LayoutSolutions\<close>)\<close>

record FloorPlan =
  fp_id :: js_string
  fp_name :: js_string
  original_image_url :: js_string
  floor_area_sqm :: "real option"

record SpaceRequirement = Requirements +
  req_id :: js_string

text \<open>
  The record that \<open>generateSolution\<close> hands to the insert. The id and the creation time
  of a stored solution are given by the database, and \<open>generation_params\<close> holds a
  constant and the clock; they are not part of the model.
\<close>

record MeetingRoomsPlaced =
  small :: int
  medium :: int
  large :: int

record AmenitiesPlaced =
  phone_booths :: int
  breakout_areas :: int
  kitchen :: bool
  reception :: bool
  storage :: int
  server_room :: bool

record ConstraintsMet =
  workstations :: bool
  meeting_rooms :: bool
  amenities :: bool

record Solution =
  floor_plan_id :: js_string
  space_requirement_id :: js_string
  feasibility_score :: int
  is_feasible :: bool
  workstations_placed :: int
  meeting_rooms_placed :: MeetingRoomsPlaced
  amenities_placed :: AmenitiesPlaced
  utilization_rate :: number
  constraints_met :: ConstraintsMet
  suggestions :: js_string

text \<open>
  The local constants \<open>requiredArea\<close>, \<open>withCirculation\<close> and \<open>ratio\<close> of
  \<open>calculateFeasibilityScore\<close> are definitions of their own, so that statements can
  name them. The function computes them after its guard only.
\<close>

definition requiredArea :: "SpaceRequirement \<Rightarrow> int" where
  "requiredArea req =
     Requirements.workstations req * 6 +
     meeting_rooms_small req * 15 +
     meeting_rooms_medium req * 25 +
     meeting_rooms_large req * 40 +
     Requirements.phone_booths req * 2 +
     Requirements.breakout_areas req * 20 +
     (if kitchen_pantry req then 15 else 0) +
     (if reception_area req then 20 else 0) +
     storage_rooms req * 10 +
     (if Requirements.server_room req then 15 else 0)"

definition withCirculation :: "SpaceRequirement \<Rightarrow> real" where
  "withCirculation req = of_int (requiredArea req) * 1.4"

definition ratio :: "SpaceRequirement \<Rightarrow> real option \<Rightarrow> number" where
  "ratio req availableArea = js_divide (to_number availableArea) (withCirculation req)"

definition calculateFeasibilityScore :: "SpaceRequirement \<Rightarrow> real option \<Rightarrow> int" where
  "calculateFeasibilityScore req availableArea =
     (if js_not availableArea then 50
      else if js_ge (ratio req availableArea) 1.2 then 95
      else if js_ge (ratio req availableArea) 1.0 then 85
      else if js_ge (ratio req availableArea) 0.9 then 70
      else if js_ge (ratio req availableArea) 0.8 then 55
      else 40)"

text \<open>
  The literals of \<open>generateSuggestions\<close>, each as its UTF-16 code units, in the order of
  the source. A bullet starts with a hyphen and a space (45, 32).
\<close>

definition msg_set_floor_area :: js_string where
  \<comment> \<open>advice to set the total area of the floor plan first\<close>
  "msg_set_floor_area =
    [24314, 35696, 20808, 35373, 23450, 24179, 38754, 22294, 30340, 32317, 38754, 31309,
     20197, 29554, 24471, 26356, 28310, 30906, 30340, 20998, 26512, 12290]"

definition msg_infeasible_lead :: js_string where
  \<comment> \<open>lead line: the space cannot hold all that is required\<close>
  "msg_infeasible_lead =
    [31354, 38291, 19981, 36275, 20197, 23481, 32013, 25152, 26377, 38656, 27714, 65292,
     24314, 35696, 65306]"

definition msg_reduce_workstations :: js_string where
  \<comment> \<open>bullet: fewer workstations or a more compact arrangement\<close>
  "msg_reduce_workstations =
    [45, 32, 28187, 23569, 24037, 20316, 31449, 25976, 37327, 25110, 25505, 29992, 26356,
     32202, 28234, 30340, 37197, 32622]"

definition msg_shared_space :: js_string where
  \<comment> \<open>bullet: flexible shared space instead of some fixed meeting rooms\<close>
  "msg_shared_space =
    [45, 32, 32771, 24942, 20351, 29992, 38728, 27963, 30340, 20849, 20139, 31354, 38291,
     21462, 20195, 37096, 20998, 22266, 23450, 26371, 35696, 23460]"

definition msg_reassess :: js_string where
  \<comment> \<open>bullet: assess whether every facility is really needed\<close>
  "msg_reassess =
    [45, 32, 35413, 20272, 26159, 21542, 30495, 30340, 38656, 35201, 25152, 26377, 35373,
     26045]"

definition msg_feasible_lead :: js_string where
  \<comment> \<open>lead line: the arrangement is feasible\<close>
  "msg_feasible_lead =
    [31354, 38291, 37197, 32622, 21487, 34892, 65281, 24314, 35696, 65306]"

definition msg_open_plan :: js_string where
  \<comment> \<open>bullet: open-plan work areas\<close>
  "msg_open_plan =
    [45, 32, 25505, 29992, 38283, 25918, 24335, 24037, 20316, 21312, 22495, 25552, 39640,
     31354, 38291, 20351, 29992, 25928, 29575]"

definition msg_glass_partitions :: js_string where
  \<comment> \<open>bullet: glass partitions\<close>
  "msg_glass_partitions =
    [45, 32, 20351, 29992, 29627, 29827, 38548, 38291, 22686, 21152, 25505, 20809, 21644,
     31354, 38291, 24863]"

definition msg_future_expansion :: js_string where
  \<comment> \<open>bullet: keep 10-15% of the space for future expansion\<close>
  "msg_future_expansion =
    [45, 32, 38928, 30041, 32, 49, 48, 45, 49, 53, 37, 32, 31354, 38291, 20316, 28858,
     26410, 20358, 25844, 20805, 20351, 29992]"

definition msg_collaboration_zone :: js_string where
  \<comment> \<open>bullet: consider a collaboration zone\<close>
  "msg_collaboration_zone =
    [45, 32, 32771, 24942, 35373, 32622, 21332, 20316, 21312, 22495, 20419, 36914, 22296,
     38538, 20114, 21205]"

definition msg_booking_system :: js_string where
  \<comment> \<open>bullet: many meeting rooms, consider a booking system\<close>
  "msg_booking_system =
    [45, 32, 26371, 35696, 23460, 25976, 37327, 36611, 22810, 65292, 24314, 35696, 25505,
     29992, 38928, 32004, 31995, 32113, 25552, 39640, 20351, 29992, 29575]"

definition newline :: js_string where
  \<comment> \<open>the separator \<open>'\n'\<close>\<close>
  "newline = [10]"

definition generateSuggestions :: "SpaceRequirement \<Rightarrow> real option \<Rightarrow> bool \<Rightarrow> js_string" where
  "generateSuggestions req availableArea isFeasible =
     (if js_not availableArea then msg_set_floor_area
      else
        let suggestions0 = [];
            suggestions1 =
              (if \<not> isFeasible then
                 push (push (push (push suggestions0 msg_infeasible_lead)
                   msg_reduce_workstations) msg_shared_space) msg_reassess
               else
                 push (push (push (push suggestions0 msg_feasible_lead)
                   msg_open_plan) msg_glass_partitions) msg_future_expansion);
            suggestions2 =
              (if Requirements.workstations req > 30
               then push suggestions1 msg_collaboration_zone else suggestions1);
            suggestions3 =
              (if meeting_rooms_small req + meeting_rooms_medium req + meeting_rooms_large req > 5
               then push suggestions2 msg_booking_system else suggestions2)
        in join newline suggestions3)"

text \<open>
  \<open>generateSolution\<close> returns at once when no requirements are loaded (\<open>None\<close>);
  otherwise the result is the record it inserts.
\<close>

definition generateSolution :: "FloorPlan \<Rightarrow> SpaceRequirement option \<Rightarrow> Solution option" where
  "generateSolution floorPlan requirements_opt =
     (case requirements_opt of
        None \<Rightarrow> None
      | Some requirements \<Rightarrow>
          let estimatedWorkstations =
                Math_floor (of_int (Requirements.workstations requirements) * 0.85);
              estimatedSmallRooms =
                min (meeting_rooms_small requirements)
                    (Math_floor (js_or (floor_area_sqm floorPlan) 0 / 100));
              estimatedMediumRooms =
                min (meeting_rooms_medium requirements)
                    (Math_floor (js_or (floor_area_sqm floorPlan) 0 / 150));
              feasibilityScore =
                calculateFeasibilityScore requirements (floor_area_sqm floorPlan);
              isFeasible = (feasibilityScore \<ge> 60)
          in Some \<lparr>
               floor_plan_id = fp_id floorPlan,
               space_requirement_id = req_id requirements,
               feasibility_score = feasibilityScore,
               is_feasible = isFeasible,
               workstations_placed = estimatedWorkstations,
               meeting_rooms_placed = \<lparr>
                 small = estimatedSmallRooms,
                 medium = estimatedMediumRooms,
                 large = min (meeting_rooms_large requirements) 1 \<rparr>,
               amenities_placed = \<lparr>
                 AmenitiesPlaced.phone_booths = Requirements.phone_booths requirements,
                 AmenitiesPlaced.breakout_areas = Requirements.breakout_areas requirements,
                 kitchen = kitchen_pantry requirements,
                 reception = reception_area requirements,
                 storage = storage_rooms requirements,
                 AmenitiesPlaced.server_room = Requirements.server_room requirements \<rparr>,
               utilization_rate =
                 Math_min 95
                   (js_times
                      (js_divide (of_int (estimatedWorkstations * 6))
                         (js_or (floor_area_sqm floorPlan) 1))
                      100),
               constraints_met = \<lparr>
                 ConstraintsMet.workstations =
                   (of_int estimatedWorkstations
                      \<ge> of_int (Requirements.workstations requirements) * (0.8 :: real)),
                 meeting_rooms =
                   (of_int (estimatedSmallRooms + estimatedMediumRooms)
                      \<ge> of_int (meeting_rooms_small requirements
                                  + meeting_rooms_medium requirements) * (0.7 :: real)),
                 amenities = True \<rparr>,
               suggestions =
                 generateSuggestions requirements (floor_area_sqm floorPlan) isFeasible \<rparr>)"

section \<open>The specification's formulations\<close>

text \<open>
  The definitions of this section follow the words of the specification, not the source;
  the theorems below compare them with the functions above.
\<close>

definition spec_total :: "'a Requirements_scheme \<Rightarrow> int" where
  \<comment> \<open>the weighted sum: count times unit area, and the unit area of each flag that is set\<close>
  "spec_total r =
     6 * Requirements.workstations r + 15 * meeting_rooms_small r +
     25 * meeting_rooms_medium r + 40 * meeting_rooms_large r +
     2 * Requirements.phone_booths r + 20 * Requirements.breakout_areas r +
     (if kitchen_pantry r then 15 else 0) + (if reception_area r then 20 else 0) +
     10 * storage_rooms r + (if Requirements.server_room r then 15 else 0)"


definition spec_ratio :: "SpaceRequirement \<Rightarrow> real \<Rightarrow> number" where
  \<comment> \<open>\<open>availableArea / (raw weighted area \<times> 1.4)\<close>\<close>
  "spec_ratio req a = js_divide a (of_int (spec_total req) * 1.4)"




definition spec_lines :: "SpaceRequirement \<Rightarrow> bool \<Rightarrow> js_string list" where
  \<comment> \<open>the decision table of the suggestions for a known area\<close>
  "spec_lines req isFeasible =
     (if isFeasible
      then [msg_feasible_lead, msg_open_plan, msg_glass_partitions, msg_future_expansion]
      else [msg_infeasible_lead, msg_reduce_workstations, msg_shared_space, msg_reassess])
     @ (if Requirements.workstations req > 30 then [msg_collaboration_zone] else [])
     @ (if meeting_rooms_small req + meeting_rooms_medium req + meeting_rooms_large req > 5
        then [msg_booking_system] else [])"

section \<open>Scenarios\<close>

definition nothing_required :: "js_string \<Rightarrow> Requirements" where
  \<comment> \<open>every count 0 and every flag false\<close>
  "nothing_required notes = \<lparr> Requirements.workstations = 0, meeting_rooms_small = 0,
     meeting_rooms_medium = 0, meeting_rooms_large = 0, Requirements.phone_booths = 0,
     Requirements.breakout_areas = 0, kitchen_pantry = False, reception_area = False,
     storage_rooms = 0, Requirements.server_room = False, additional_notes = notes \<rparr>"

definition scenario_A :: Requirements where
  \<comment> \<open>the requirements of the end-to-end scenarios, also the initial state of the form\<close>
  "scenario_A = \<lparr> Requirements.workstations = 10, meeting_rooms_small = 1,
     meeting_rooms_medium = 1, meeting_rooms_large = 0, Requirements.phone_booths = 2,
     Requirements.breakout_areas = 1, kitchen_pantry = True, reception_area = True,
     storage_rooms = 1, Requirements.server_room = False, additional_notes = [] \<rparr>"

definition with_id :: "Requirements \<Rightarrow> js_string \<Rightarrow> SpaceRequirement" where
  "with_id r i = Requirements.extend r \<lparr> req_id = i \<rparr>"

definition scenario_req :: SpaceRequirement where
  "scenario_req = with_id scenario_A []"

definition desks_and_reception :: SpaceRequirement where
  \<comment> \<open>five workstations and a reception: a raw area of 50, 70 with circulation\<close>
  "desks_and_reception =
     with_id ((nothing_required [])\<lparr>Requirements.workstations := 5, reception_area := True\<rparr>) []"

definition large_office :: SpaceRequirement where
  \<comment> \<open>forty workstations and six meeting rooms\<close>
  "large_office =
     with_id (scenario_A\<lparr>Requirements.workstations := 40, meeting_rooms_small := 3,
       meeting_rooms_medium := 2, meeting_rooms_large := 1\<rparr>) []"

definition plan_with_area :: "real option \<Rightarrow> FloorPlan" where
  "plan_with_area a =
     \<lparr> fp_id = [], fp_name = [], original_image_url = [], floor_area_sqm = a \<rparr>"

section \<open>The estimated area\<close>

lemma calculateEstimatedArea_total:
  "calculateEstimatedArea r = Math_round (of_int (spec_total r) * 1.4)"
  by (simp add: calculateEstimatedArea_def spec_total_def Let_def mult.commute)

lemma calculateEstimatedArea_mono_total:
  "spec_total r \<le> spec_total r' \<Longrightarrow> calculateEstimatedArea r \<le> calculateEstimatedArea r'"
  unfolding calculateEstimatedArea_total Math_round_def
  by (intro floor_mono) simp

text \<open>
  The product of the total and 1.4 is the one inexact step of the source's computation.
  Its exact value is never nearer than 1/10 to the middle between two integers, so an
  error below 1/10 does not change the rounded result. In binary64 the computed product
  is \<open>t * c * (1 + d)\<close>, with \<open>c\<close> the representable number nearest to 1.4 and \<open>d\<close>
  the relative error of the multiplication, each within 1 / 2 ^ 53 in relative terms.
  For a total of magnitude up to 2 ^ 40, which 32-bit counts cannot exceed, the rounded
  result is then the one of the exact product.
\<close>

lemma Math_round_total_stable:
  assumes "\<bar>e\<bar> < 1 / 10"
  shows "Math_round (of_int t * 1.4 + e) = Math_round (of_int t * 1.4)"
proof -
  define q where "q = 7 * t div 5"
  define m where "m = 7 * t mod 5"
  have t: "7 * t = 5 * q + m" and m: "0 \<le> m" "m < 5"
    by (simp_all add: q_def m_def)
  have x: "real_of_int t * 1.4 = of_int q + of_int m / 5"
  proof -
    have "real_of_int (7 * t) = real_of_int (5 * q + m)"
      using t by simp
    then show ?thesis by simp
  qed
  from m consider "m = 0" | "m = 1" | "m = 2" | "m = 3" | "m = 4"
    by linarith
  then show ?thesis
  proof cases
    case 1
    with assms show ?thesis
      unfolding Math_round_def x by (simp add: floor_eq_iff) linarith
  next
    case 2
    with assms show ?thesis
      unfolding Math_round_def x by (simp add: floor_eq_iff) linarith
  next
    case 3
    with assms show ?thesis
      unfolding Math_round_def x by (simp add: floor_eq_iff) linarith
  next
    case 4
    with assms show ?thesis
      unfolding Math_round_def x by (simp add: floor_eq_iff) linarith
  next
    case 5
    with assms show ?thesis
      unfolding Math_round_def x by (simp add: floor_eq_iff) linarith
  qed
qed

lemma product_error_bound:
  fixes c d :: real
  assumes d: "\<bar>d\<bar> \<le> 1 / 2 ^ 53" and c: "\<bar>c - 1.4\<bar> \<le> 1.4 / 2 ^ 53"
    and t: "\<bar>t\<bar> \<le> 2 ^ 40"
  shows "\<bar>of_int t * c * (1 + d) - of_int t * 1.4\<bar> < 1 / 10"
proof -
  have d1: "\<bar>1 + d\<bar> \<le> 2"
    using d by (simp add: abs_le_iff)
  have "\<bar>(c - 1.4) * (1 + d) + 1.4 * d\<bar> \<le> \<bar>(c - 1.4) * (1 + d)\<bar> + \<bar>1.4 * d\<bar>"
    by (rule abs_triangle_ineq)
  also have "\<dots> = \<bar>c - 1.4\<bar> * \<bar>1 + d\<bar> + 1.4 * \<bar>d\<bar>"
    by (simp add: abs_mult)
  also have "\<dots> \<le> 1.4 / 2 ^ 53 * 2 + 1.4 * (1 / 2 ^ 53)"
    by (intro add_mono mult_mono c d1 d) simp_all
  finally have k: "\<bar>(c - 1.4) * (1 + d) + 1.4 * d\<bar> \<le> 4.2 / 2 ^ 53"
    by simp
  have "of_int t * c * (1 + d) - of_int t * 1.4
      = of_int t * ((c - 1.4) * (1 + d) + 1.4 * d)"
    by (simp add: algebra_simps)
  then have "\<bar>of_int t * c * (1 + d) - of_int t * 1.4\<bar>
      = \<bar>real_of_int t\<bar> * \<bar>(c - 1.4) * (1 + d) + 1.4 * d\<bar>"
    by (simp add: abs_mult)
  also have "\<dots> \<le> 2 ^ 40 * (4.2 / 2 ^ 53)"
  proof (intro mult_mono k)
    show "\<bar>real_of_int t\<bar> \<le> 2 ^ 40"
      using t by (simp add: abs_le_iff)
  qed simp_all
  also have "\<dots> < 1 / 10"
    by simp
  finally show ?thesis .
qed

lemma estimate_unchanged_by_rounding:
  fixes c d :: real
  assumes "\<bar>d\<bar> \<le> 1 / 2 ^ 53" and "\<bar>c - 1.4\<bar> \<le> 1.4 / 2 ^ 53" and "\<bar>t\<bar> \<le> 2 ^ 40"
  shows "Math_round (of_int t * c * (1 + d)) = Math_round (of_int t * 1.4)"
proof -
  have "Math_round (of_int t * 1.4 + (of_int t * c * (1 + d) - of_int t * 1.4))
      = Math_round (of_int t * 1.4)"
    by (rule Math_round_total_stable) (rule product_error_bound [OF assms])
  then show ?thesis by simp
qed


text \<open>
  Claim C8. The estimated area does not decrease when one count grows, or when one flag
  goes from false to true, the other fields staying as they are.
\<close>

theorem calculateEstimatedArea_monotone:
  "(Requirements.workstations r \<le> n \<longrightarrow>
      calculateEstimatedArea r \<le> calculateEstimatedArea (r\<lparr>Requirements.workstations := n\<rparr>))
 \<and> (meeting_rooms_small r \<le> n \<longrightarrow>
      calculateEstimatedArea r \<le> calculateEstimatedArea (r\<lparr>meeting_rooms_small := n\<rparr>))
 \<and> (meeting_rooms_medium r \<le> n \<longrightarrow>
      calculateEstimatedArea r \<le> calculateEstimatedArea (r\<lparr>meeting_rooms_medium := n\<rparr>))
 \<and> (meeting_rooms_large r \<le> n \<longrightarrow>
      calculateEstimatedArea r \<le> calculateEstimatedArea (r\<lparr>meeting_rooms_large := n\<rparr>))
 \<and> (Requirements.phone_booths r \<le> n \<longrightarrow>
      calculateEstimatedArea r \<le> calculateEstimatedArea (r\<lparr>Requirements.phone_booths := n\<rparr>))
 \<and> (Requirements.breakout_areas r \<le> n \<longrightarrow>
      calculateEstimatedArea r
        \<le> calculateEstimatedArea (r\<lparr>Requirements.breakout_areas := n\<rparr>))
 \<and> (storage_rooms r \<le> n \<longrightarrow>
      calculateEstimatedArea r \<le> calculateEstimatedArea (r\<lparr>storage_rooms := n\<rparr>))
 \<and> (\<not> kitchen_pantry r \<longrightarrow>
      calculateEstimatedArea r \<le> calculateEstimatedArea (r\<lparr>kitchen_pantry := True\<rparr>))
 \<and> (\<not> reception_area r \<longrightarrow>
      calculateEstimatedArea r \<le> calculateEstimatedArea (r\<lparr>reception_area := True\<rparr>))
 \<and> (\<not> Requirements.server_room r \<longrightarrow>
      calculateEstimatedArea r
        \<le> calculateEstimatedArea (r\<lparr>Requirements.server_room := True\<rparr>))"
  by (intro conjI impI calculateEstimatedArea_mono_total) (simp_all add: spec_total_def)

text \<open>
  With nothing required and each count raised to 1 in turn, or each flag set in turn,
  the estimate goes from 0 to the rounded unit area with circulation.
\<close>

theorem calculateEstimatedArea_monotone_witness:
  "Requirements.workstations (nothing_required []) \<le> 1
 \<and> meeting_rooms_small (nothing_required []) \<le> 1
 \<and> meeting_rooms_medium (nothing_required []) \<le> 1
 \<and> meeting_rooms_large (nothing_required []) \<le> 1
 \<and> Requirements.phone_booths (nothing_required []) \<le> 1
 \<and> Requirements.breakout_areas (nothing_required []) \<le> 1
 \<and> storage_rooms (nothing_required []) \<le> 1
 \<and> \<not> kitchen_pantry (nothing_required [])
 \<and> \<not> reception_area (nothing_required [])
 \<and> \<not> Requirements.server_room (nothing_required [])
 \<and> calculateEstimatedArea (nothing_required []) = 0
 \<and> calculateEstimatedArea ((nothing_required [])\<lparr>Requirements.workstations := 1\<rparr>) = 8
 \<and> calculateEstimatedArea ((nothing_required [])\<lparr>meeting_rooms_small := 1\<rparr>) = 21
 \<and> calculateEstimatedArea ((nothing_required [])\<lparr>meeting_rooms_medium := 1\<rparr>) = 35
 \<and> calculateEstimatedArea ((nothing_required [])\<lparr>meeting_rooms_large := 1\<rparr>) = 56
 \<and> calculateEstimatedArea ((nothing_required [])\<lparr>Requirements.phone_booths := 1\<rparr>) = 3
 \<and> calculateEstimatedArea ((nothing_required [])\<lparr>Requirements.breakout_areas := 1\<rparr>) = 28
 \<and> calculateEstimatedArea ((nothing_required [])\<lparr>storage_rooms := 1\<rparr>) = 14
 \<and> calculateEstimatedArea ((nothing_required [])\<lparr>kitchen_pantry := True\<rparr>) = 21
 \<and> calculateEstimatedArea ((nothing_required [])\<lparr>reception_area := True\<rparr>) = 28
 \<and> calculateEstimatedArea ((nothing_required [])\<lparr>Requirements.server_room := True\<rparr>) = 21"
  using calculateEstimatedArea_monotone [of "nothing_required []" 1]
  by (simp add: nothing_required_def calculateEstimatedArea_def Math_round_def)

section \<open>Sufficiency of the area\<close>

text \<open>
  Claim C3, amended. The area is sufficient if the available area is null or zero, or if
  the estimated area is at most the available area, and insufficient otherwise; it is
  insufficient whenever the available area is a number other than zero that is strictly
  smaller than the estimated area.
\<close>

theorem isAreaSufficient_cases:
  "isAreaSufficient estimatedArea None
 \<and> isAreaSufficient estimatedArea (Some a) = (a = 0 \<or> estimatedArea \<le> a)
 \<and> (a \<noteq> 0 \<and> a < estimatedArea \<longrightarrow> \<not> isAreaSufficient estimatedArea (Some a))"
  by (auto simp add: isAreaSufficient_def js_not_def to_number_def)

theorem isAreaSufficient_cases_witness:
  "(150::real) \<noteq> 0 \<and> (150::real) < 237 \<and> \<not> isAreaSufficient 237 (Some 150)
 \<and> isAreaSufficient 237 (Some 300) \<and> isAreaSufficient 237 None"
  using isAreaSufficient_cases [of 237 150] isAreaSufficient_cases [of 237 300] by simp

text \<open>
  As first stated, the area would be insufficient for every available area that is a
  number below the estimate. An available area of 0 is a number below the estimate 237,
  and is not null, yet the area counts as sufficient.
\<close>

theorem isAreaSufficient_zero_counterexample:
  "isAreaSufficient 237 (Some 0) \<and> \<not> (Some (0::real) = None \<or> (237::real) \<le> 0)"
  by (simp add: isAreaSufficient_def js_not_def)

section \<open>The feasibility score\<close>

lemma requiredArea_total: "requiredArea req = spec_total req"
  by (simp add: requiredArea_def spec_total_def mult.commute)

lemma ratio_Some: "ratio req (Some a) = spec_ratio req a"
  by (simp add: ratio_def spec_ratio_def withCirculation_def to_number_def requiredArea_total)

lemma spec_total_desks_and_reception: "spec_total desks_and_reception = 50"
  by (simp add: desks_and_reception_def with_id_def nothing_required_def spec_total_def
      Requirements.defs SpaceRequirement.defs)

lemma spec_ratio_desks_and_reception: "spec_ratio desks_and_reception a = Finite (a / 70)"
  by (simp add: spec_ratio_def spec_total_desks_and_reception js_divide_def)

lemma spec_total_scenario_req: "spec_total scenario_req = 169"
  by (simp add: scenario_req_def with_id_def scenario_A_def spec_total_def
      Requirements.defs SpaceRequirement.defs)

lemma requiredArea_nothing_required: "requiredArea (with_id (nothing_required notes) i) = 0"
  by (simp add: requiredArea_def with_id_def nothing_required_def
      Requirements.defs SpaceRequirement.defs)

lemma calculateFeasibilityScore_codomain:
  "calculateFeasibilityScore req a \<in> {40, 50, 55, 70, 85, 95}"
  by (simp add: calculateFeasibilityScore_def)



text \<open>
  The boundaries, at a required area of 70 with circulation: the ratios 1, 0.9 and 0.8
  are in the bucket they open, and the ratios 0.999, just below 1.2, just below 0.9 and
  just below 0.8 are in the bucket beneath.
\<close>

lemma calculateFeasibilityScore_boundaries:
  "calculateFeasibilityScore desks_and_reception (Some 70) = 85
 \<and> calculateFeasibilityScore desks_and_reception (Some 63) = 70
 \<and> calculateFeasibilityScore desks_and_reception (Some 56) = 55
 \<and> calculateFeasibilityScore desks_and_reception (Some 69.93) = 70
 \<and> calculateFeasibilityScore desks_and_reception (Some 83.9) = 85
 \<and> calculateFeasibilityScore desks_and_reception (Some 62.9) = 55
 \<and> calculateFeasibilityScore desks_and_reception (Some 55.9) = 40"
  by (simp add: calculateFeasibilityScore_def js_not_def ratio_Some
      spec_ratio_desks_and_reception)

text \<open>
  With a raw area other than 0 the ratio is a finite number, and the scores are the
  buckets between the thresholds.
\<close>

lemma calculateFeasibilityScore_buckets:
  assumes "a \<noteq> 0" and "spec_total req \<noteq> 0"
  shows "calculateFeasibilityScore req (Some a) =
     (let q = a / (of_int (spec_total req) * 1.4)
      in if 1.2 \<le> q then 95
         else if 1 \<le> q then 85
         else if 0.9 \<le> q then 70
         else if 0.8 \<le> q then 55
         else 40)"
  using assms
  by (simp add: calculateFeasibilityScore_def js_not_def ratio_Some spec_ratio_def
      js_divide_def Let_def)

text \<open>
  Claim C10. When the raw weighted area is 0 and the available area is positive, the
  division is by zero and is not guarded: the ratio is positive infinity, which is at
  least 1.2, and the score is 95.
\<close>

theorem calculateFeasibilityScore_division_by_zero:
  "requiredArea req = 0 \<Longrightarrow> 0 < a \<Longrightarrow>
     withCirculation req = 0 \<and> ratio req (Some a) = PosInfinity
     \<and> js_ge (ratio req (Some a)) 1.2
     \<and> calculateFeasibilityScore req (Some a) = 95"
  by (simp add: calculateFeasibilityScore_def js_not_def ratio_def withCirculation_def
      js_divide_def to_number_def)

theorem calculateFeasibilityScore_division_by_zero_witness:
  "requiredArea (with_id (nothing_required []) []) = 0 \<and> (0::real) < 150
 \<and> ratio (with_id (nothing_required []) []) (Some 150) = PosInfinity
 \<and> calculateFeasibilityScore (with_id (nothing_required []) []) (Some 150) = 95"
proof -
  have z: "requiredArea (with_id (nothing_required []) []) = 0"
    by (rule requiredArea_nothing_required)
  have p: "(0::real) < 150" by simp
  show ?thesis
    using z p calculateFeasibilityScore_division_by_zero [OF z p] by simp
qed

section \<open>The generated solution\<close>

lemma calculateFeasibilityScore_scenario_C:
  "calculateFeasibilityScore scenario_req (Some 150) = 40"
  by (simp add: calculateFeasibilityScore_def js_not_def ratio_Some spec_ratio_def
      spec_total_scenario_req js_divide_def)

text \<open>
  Claim C4. The solution generated for any requirement and any available area is
  feasible if and only if its score is at least 60. The score is one of 40, 50, 55, 70,
  85 and 95, so the solution is feasible exactly when the score is 70, 85 or 95. In
  scenario C, with an available area of 150, the score is 40 and the solution is not
  feasible.
\<close>

theorem generateSolution_is_feasible:
  "(\<exists>s. generateSolution fp (Some req) = Some s
      \<and> feasibility_score s = calculateFeasibilityScore req (floor_area_sqm fp)
      \<and> is_feasible s = (feasibility_score s \<ge> 60)
      \<and> feasibility_score s \<in> {40, 50, 55, 70, 85, 95}
      \<and> is_feasible s = (feasibility_score s \<in> {70, 85, 95}))
 \<and> map_option feasibility_score
       (generateSolution (plan_with_area (Some 150)) (Some scenario_req)) = Some 40
 \<and> map_option is_feasible
       (generateSolution (plan_with_area (Some 150)) (Some scenario_req)) = Some False"
proof (intro conjI)
  have "calculateFeasibilityScore req (floor_area_sqm fp) \<in> {40, 50, 55, 70, 85, 95}"
    by (rule calculateFeasibilityScore_codomain)
  then show "\<exists>s. generateSolution fp (Some req) = Some s
      \<and> feasibility_score s = calculateFeasibilityScore req (floor_area_sqm fp)
      \<and> is_feasible s = (feasibility_score s \<ge> 60)
      \<and> feasibility_score s \<in> {40, 50, 55, 70, 85, 95}
      \<and> is_feasible s = (feasibility_score s \<in> {70, 85, 95})"
    by (auto simp add: generateSolution_def Let_def)
  show "map_option feasibility_score
       (generateSolution (plan_with_area (Some 150)) (Some scenario_req)) = Some 40"
    by (simp add: generateSolution_def Let_def plan_with_area_def
        calculateFeasibilityScore_scenario_C)
  show "map_option is_feasible
       (generateSolution (plan_with_area (Some 150)) (Some scenario_req)) = Some False"
    by (simp add: generateSolution_def Let_def plan_with_area_def
        calculateFeasibilityScore_scenario_C)
qed

text \<open>
  Claim C5. The number of large meeting rooms placed is the minimum of the number
  required and 1, so it is never more than 1, whatever is required and whatever area is
  available.
\<close>

theorem generateSolution_large_rooms:
  "\<exists>s. generateSolution fp (Some req) = Some s
      \<and> large (meeting_rooms_placed s) = min (meeting_rooms_large req) 1
      \<and> large (meeting_rooms_placed s) \<le> 1"
  by (simp add: generateSolution_def Let_def)








section \<open>The suggestions\<close>

lemmas msg_defs =
  msg_set_floor_area_def msg_infeasible_lead_def msg_reduce_workstations_def
  msg_shared_space_def msg_reassess_def msg_feasible_lead_def msg_open_plan_def
  msg_glass_partitions_def msg_future_expansion_def msg_collaboration_zone_def
  msg_booking_system_def

lemma msg_no_newline:
  "10 \<notin> set msg_set_floor_area" "10 \<notin> set msg_infeasible_lead"
  "10 \<notin> set msg_reduce_workstations" "10 \<notin> set msg_shared_space"
  "10 \<notin> set msg_reassess" "10 \<notin> set msg_feasible_lead" "10 \<notin> set msg_open_plan"
  "10 \<notin> set msg_glass_partitions" "10 \<notin> set msg_future_expansion"
  "10 \<notin> set msg_collaboration_zone" "10 \<notin> set msg_booking_system"
  by (simp_all add: msg_defs)

lemma spec_lines_no_newline: "\<forall>l \<in> set (spec_lines req isFeasible). 10 \<notin> set l"
  by (auto simp add: spec_lines_def msg_no_newline)

lemma generateSuggestions_lines:
  "\<not> js_not a \<Longrightarrow>
     generateSuggestions req a isFeasible = join newline (spec_lines req isFeasible)"
  by (simp add: generateSuggestions_def spec_lines_def push_def Let_def)

text \<open>
  Joining lines that hold no newline gives a text with one newline fewer than lines.
\<close>

lemma newlines_join:
  "\<forall>l \<in> set ls. 10 \<notin> set l \<Longrightarrow> count_list (join [10] ls) 10 = length ls - 1"
proof (induction "[10::nat]" ls rule: join.induct)
  case 1
  then show ?case by simp
next
  case (2 x)
  then show ?case by (simp add: count_list_0_iff)
next
  case (3 x y ys)
  then show ?case by (simp add: count_list_0_iff)
qed

text \<open>
  Claim C7, amended. If the available area is null or zero, the suggestions are the
  single line that recommends setting the floor area, and no other rule applies.
  Otherwise they are a lead line and three bullet lines chosen by the feasibility, then
  the collaboration-zone line exactly when there are more than 30 workstations, then
  the booking-system line exactly when the small, medium and large meeting rooms
  together are more than 5, joined by newlines in that order.
\<close>

theorem generateSuggestions_decision_table:
  "generateSuggestions req None isFeasible = msg_set_floor_area
 \<and> generateSuggestions req (Some 0) isFeasible = msg_set_floor_area
 \<and> count_list msg_set_floor_area 10 = 0
 \<and> (a \<noteq> 0 \<longrightarrow>
       generateSuggestions req (Some a) isFeasible = join newline (spec_lines req isFeasible)
     \<and> count_list (generateSuggestions req (Some a) isFeasible) 10
         = length (spec_lines req isFeasible) - 1)"
proof (intro conjI impI)
  show "generateSuggestions req None isFeasible = msg_set_floor_area"
    by (simp add: generateSuggestions_def js_not_def)
  show "generateSuggestions req (Some 0) isFeasible = msg_set_floor_area"
    by (simp add: generateSuggestions_def js_not_def)
  show "count_list msg_set_floor_area 10 = 0"
    by (simp add: msg_set_floor_area_def)
next
  assume "a \<noteq> 0"
  then have n: "\<not> js_not (Some a)"
    by (simp add: js_not_def)
  show g: "generateSuggestions req (Some a) isFeasible
      = join newline (spec_lines req isFeasible)"
    by (rule generateSuggestions_lines [OF n])
  show "count_list (generateSuggestions req (Some a) isFeasible) 10
      = length (spec_lines req isFeasible) - 1"
    unfolding g newline_def by (rule newlines_join [OF spec_lines_no_newline])
qed

theorem generateSuggestions_decision_table_witness:
  "(150::real) \<noteq> 0
 \<and> generateSuggestions scenario_req (Some 150) False
     = msg_infeasible_lead @ [10] @ msg_reduce_workstations @ [10] @ msg_shared_space @ [10]
       @ msg_reassess
 \<and> generateSuggestions large_office (Some 150) True
     = msg_feasible_lead @ [10] @ msg_open_plan @ [10] @ msg_glass_partitions @ [10]
       @ msg_future_expansion @ [10] @ msg_collaboration_zone @ [10] @ msg_booking_system
 \<and> count_list (generateSuggestions large_office (Some 150) True) 10 = 5"
proof -
  have nz: "(150::real) \<noteq> 0" by simp
  have l1: "spec_lines scenario_req False
      = [msg_infeasible_lead, msg_reduce_workstations, msg_shared_space, msg_reassess]"
    by (simp add: spec_lines_def scenario_req_def with_id_def scenario_A_def
        Requirements.defs SpaceRequirement.defs)
  have l2: "spec_lines large_office True
      = [msg_feasible_lead, msg_open_plan, msg_glass_partitions, msg_future_expansion,
         msg_collaboration_zone, msg_booking_system]"
    by (simp add: spec_lines_def large_office_def with_id_def scenario_A_def
        Requirements.defs SpaceRequirement.defs)
  from generateSuggestions_decision_table [of scenario_req False 150] nz
  have g1: "generateSuggestions scenario_req (Some 150) False
      = join newline (spec_lines scenario_req False)"
    by blast
  from generateSuggestions_decision_table [of large_office True 150] nz
  have g2: "generateSuggestions large_office (Some 150) True
      = join newline (spec_lines large_office True)"
    and c2: "count_list (generateSuggestions large_office (Some 150) True) 10
      = length (spec_lines large_office True) - 1"
    by blast+
  show ?thesis
    using nz by (simp add: g1 c2 l1) (simp add: g2 l2 newline_def)
qed

text \<open>
  As first stated, only a null area would give the single line, and every other area the
  lead line and its bullets. An area of 0 is not null, and gives the single line.
\<close>

theorem generateSuggestions_zero_counterexample:
  "generateSuggestions scenario_req (Some 0) True = msg_set_floor_area
 \<and> msg_set_floor_area \<noteq> join newline (spec_lines scenario_req True)"
  by (simp add: generateSuggestions_def js_not_def spec_lines_def scenario_req_def with_id_def
      scenario_A_def Requirements.defs SpaceRequirement.defs msg_defs newline_def)

section \<open>An available area of zero\<close>

text \<open>
  Claim C9. An available area of exactly 0 is treated as a null one by every operation,
  each testing it for falsiness: the score is 50, the area counts as sufficient also for
  a positive estimate, the suggestions are the single line that recommends setting the
  floor area, and the whole generated solution is the one of a null area.
\<close>

theorem zero_area_is_unknown:
  "calculateFeasibilityScore req (Some 0) = 50
 \<and> calculateFeasibilityScore req (Some 0) = calculateFeasibilityScore req None
 \<and> isAreaSufficient estimatedArea (Some 0)
 \<and> isAreaSufficient estimatedArea (Some 0) = isAreaSufficient estimatedArea None
 \<and> generateSuggestions req (Some 0) isFeasible = msg_set_floor_area
 \<and> generateSuggestions req (Some 0) isFeasible = generateSuggestions req None isFeasible
 \<and> generateSolution (fp\<lparr>floor_area_sqm := Some 0\<rparr>) reqs
     = generateSolution (fp\<lparr>floor_area_sqm := None\<rparr>) reqs"
  by (simp add: calculateFeasibilityScore_def isAreaSufficient_def generateSuggestions_def
      generateSolution_def js_not_def js_or_def Let_def split: option.split)

end
